theory Spec2Isabelle
  imports Main
begin

section \<open>The browser environment shared by all pages\<close>

text \<open>
  The client is a set of React pages whose handlers read and write \<open>localStorage\<close>,
  issue HTTP requests through axios, show toasts and navigate. A handler is modelled as a
  function on the page's state and on a \<open>world\<close>: the persisted storage and the log of
  outward effects in program order. What the environment decides (the server's answer,
  the user's answer to a dialog, the file chosen) is an argument of the handler.
\<close>

text \<open>
  A \<open>json\<close> is a parsed response body; the keys of a \<open>JObj\<close> are its properties,
  each listed once.
\<close>

datatype json =
    JNull
  | JBool bool
  | JNum int
  | JStr string
  | JArr "json list"
  | JObj "(string \<times> json) list"

text \<open>JavaScript truthiness of a parsed JSON value, as \<open>||\<close> and \<open>if\<close> test it.\<close>

fun truthy_json :: "json \<Rightarrow> bool" where
  "truthy_json JNull = False"
| "truthy_json (JBool b) = b"
| "truthy_json (JNum n) = (n \<noteq> 0)"
| "truthy_json (JStr s) = (s \<noteq> [])"
| "truthy_json (JArr _) = True"
| "truthy_json (JObj _) = True"

text \<open>
  A JavaScript value of the page's object store: a primitive, or a reference to an
  object or array of the store. The Resume Editor's draft lives there, since its update
  operations share and mutate objects.
\<close>

datatype val = Undefined | Null | VBool bool | VNum int | VStr string | Ref nat

datatype http_method = GET | POST | PUT | DELETE | PATCH

record upload_file =
  file_name :: string
  file_type :: string

datatype body =
    No_body
  | Fields "(string \<times> string) list"
  | FormData "(string \<times> upload_file) list"
  | Empty_object
  | Heap_value val

text \<open>
  An axios call: \<open>timeout = None\<close> when the call's config sets no timeout, and
  \<open>headers\<close> holds exactly the headers the call's config sets.
\<close>

record request =
  verb :: http_method
  url :: string
  payload :: body
  headers :: "(string \<times> string) list"
  timeout :: "nat option"

datatype toast_kind = Success | Error | Loading

datatype effect =
    Request request
  | Toast toast_kind string
  | Toast_id toast_kind string string
  | Navigate string
  | Console_error
  | Set_item string string
  | Remove_item string
  | Confirm_dialog string
  | Reset_input

record world =
  localStorage :: "string \<rightharpoonup> string"
  log :: "effect list"

definition emit :: "effect \<Rightarrow> world \<Rightarrow> world" where
  "emit e w = w\<lparr>log := log w @ [e]\<rparr>"

definition setItem :: "string \<Rightarrow> string \<Rightarrow> world \<Rightarrow> world" where
  "setItem k v w = emit (Set_item k v) (w\<lparr>localStorage := (localStorage w)(k \<mapsto> v)\<rparr>)"

definition removeItem :: "string \<Rightarrow> world \<Rightarrow> world" where
  "removeItem k w = emit (Remove_item k) (w\<lparr>localStorage := (localStorage w)(k := None)\<rparr>)"

definition getItem :: "string \<Rightarrow> world \<Rightarrow> string option" where
  "getItem k w = localStorage w k"

text \<open>The requests among the effects of a log, in order.\<close>

fun requests_of :: "effect list \<Rightarrow> request list" where
  "requests_of [] = []"
| "requests_of (Request r # es) = r # requests_of es"
| "requests_of (_ # es) = requests_of es"

text \<open>
  What a rejected axios promise carries, as far as the handlers read it:
  \<open>error.response?.status\<close>, \<open>error.response?.data?.detail\<close>,
  \<open>error.response?.data?.error\<close>, \<open>error.response?.data?.message\<close> and
  \<open>error.message\<close>. \<open>None\<close> is \<open>undefined\<close>.
\<close>

record axios_error =
  err_status :: "nat option"
  err_detail :: "string option"
  err_error :: "string option"
  err_data_message :: "string option"
  err_message :: "string option"

datatype 'a response = Resolved 'a | Rejected axios_error

text \<open>\<open>a || b\<close> on an optional string: the empty string is falsy as \<open>undefined\<close> is.\<close>

fun or_else :: "string option \<Rightarrow> string \<Rightarrow> string" where
  "or_else None d = d"
| "or_else (Some s) d = (if s = [] then d else s)"

text \<open>The template \<open>Bearer ${token}\<close>; a missing entry reads \<open>null\<close>.\<close>

definition bearer :: "string option \<Rightarrow> string" where
  "bearer tok = ''Bearer '' @ (case tok of None \<Rightarrow> ''null'' | Some t \<Rightarrow> t)"

definition auth_headers :: "string option \<Rightarrow> (string \<times> string) list" where
  "auth_headers tok = [(''Authorization'', bearer tok)]"

section \<open>App.js: the session store\<close>

definition API :: string where
  "API = ''http://127.0.0.1:5000/api''"

text \<open>
  \<open>login\<close> and \<open>logout\<close> of the auth context. \<open>JSON.stringify\<close> is the platform's
  serialiser and is taken as the parameter \<open>stringify\<close>. The context's \<open>user\<close> state is
  \<open>None\<close> for \<open>null\<close>.
\<close>

record app =
  user :: "json option"

definition login :: "(json \<Rightarrow> string) \<Rightarrow> string \<Rightarrow> json \<Rightarrow> app \<times> world \<Rightarrow> app \<times> world" where
  "login stringify token userData = (\<lambda>(a, w).
     (a\<lparr>user := Some userData\<rparr>,
      setItem ''user'' (stringify userData) (setItem ''token'' token w)))"

definition logout :: "app \<times> world \<Rightarrow> app \<times> world" where
  "logout = (\<lambda>(a, w). (a\<lparr>user := None\<rparr>, removeItem ''user'' (removeItem ''token'' w)))"

text \<open>\<open>ProtectedRoute\<close>: the children render only when a non-empty token is stored.\<close>

datatype route_result = Children | Redirect string

definition ProtectedRoute :: "world \<Rightarrow> route_result" where
  "ProtectedRoute w =
     (case getItem ''token'' w of
        None \<Rightarrow> Redirect ''/login''
      | Some t \<Rightarrow> if t = [] then Redirect ''/login'' else Children)"

text \<open>
  The routes of \<open>App\<close>, for the paths the pages navigate to. An element is a view, or
  a \<open>Navigate\<close> element that sends the router on to another path when it renders. The
  login route shows the login view only while the context has no user, and sends a
  signed-in user to the dashboard; the other routes are guarded by \<open>ProtectedRoute\<close>.
\<close>

datatype view =
    Login_view
  | Dashboard_view
  | Jobs_view
  | Applications_view
  | ApplicationDetail_view string

datatype element = View view | Navigate_to string | No_match

definition guarded :: "world \<Rightarrow> view \<Rightarrow> element" where
  "guarded w v = (case ProtectedRoute w of Children \<Rightarrow> View v | Redirect path \<Rightarrow> Navigate_to path)"

definition Routes :: "app \<Rightarrow> world \<Rightarrow> string \<Rightarrow> element" where
  "Routes a w path =
     (if path = ''/login'' then
        (case user a of
           None \<Rightarrow> View Login_view
         | Some u \<Rightarrow> if truthy_json u then Navigate_to ''/'' else View Login_view)
      else if path = ''/'' then guarded w Dashboard_view
      else if path = ''/jobs'' then guarded w Jobs_view
      else if path = ''/applications'' then guarded w Applications_view
      else if take 14 path = ''/applications/'' \<and> drop 14 path \<noteq> []
              \<and> CHR ''/'' \<notin> set (drop 14 path)
        then guarded w (ApplicationDetail_view (drop 14 path))
      else No_match)"

text \<open>
  Where the router ends up from a path, following at most \<open>n\<close> \<open>Navigate\<close>
  elements; the result is a \<open>View\<close> when it has settled.
\<close>

fun follow_redirects :: "nat \<Rightarrow> app \<Rightarrow> world \<Rightarrow> string \<Rightarrow> element" where
  "follow_redirects 0 a w path = Routes a w path"
| "follow_redirects (Suc n) a w path =
     (case Routes a w path of
        Navigate_to target \<Rightarrow> follow_redirects n a w target
      | e \<Rightarrow> e)"

section \<open>Login page\<close>

text \<open>
  The body of a successful login or register response, when it is a JSON object:
  \<open>access_token\<close> and \<open>user\<close> are \<open>None\<close> when the body lacks them. The
  handlers get \<open>Resolved None\<close> for the body \<open>null\<close>, on which reading
  \<open>access_token\<close> throws into the \<open>catch\<close>.
\<close>

record auth_data =
  access_token :: "string option"
  auth_user :: "json option"

record login_page =
  loading :: bool
  login_email :: string
  login_password :: string
  register_email :: string
  register_password :: string
  register_full_name :: string

definition BACKEND_URL :: string where
  "BACKEND_URL = ''http://127.0.0.1:5000''"

definition user_or_empty :: "json option \<Rightarrow> json" where
  "user_or_empty u = (case u of None \<Rightarrow> JObj [] | Some j \<Rightarrow> if truthy_json j then j else JObj [])"

text \<open>
  The \<open>try\<close> block after the awaited post, shared in shape by \<open>handleLogin\<close> and
  \<open>handleRegister\<close>: on success \<open>login\<close>, a toast and \<open>navigate('/')\<close>; on failure
  \<open>console.error\<close> and a toast with the server's message or the fallback.
\<close>

definition handleLogin ::
  "(json \<Rightarrow> string) \<Rightarrow> auth_data option response \<Rightarrow>
   login_page \<times> app \<times> world \<Rightarrow> login_page \<times> app \<times> world" where
  "handleLogin stringify resp = (\<lambda>(p, a, w).
     let w1 = emit (Request \<lparr>verb = POST, url = BACKEND_URL @ ''/api/login'',
                payload = Fields [(''email'', login_email p), (''password'', login_password p)],
                headers = [], timeout = None\<rparr>) w
     in case resp of
          Resolved (Some d) \<Rightarrow>
            (let (a2, w2) = login stringify (or_else (access_token d) ''dummy-token'')
                              (user_or_empty (auth_user d)) (a, w1)
             in (p\<lparr>loading := False\<rparr>, a2,
                 emit (Navigate ''/'') (emit (Toast Success ''Welcome back!'') w2)))
        | Resolved None \<Rightarrow>
            (p\<lparr>loading := False\<rparr>, a, emit (Toast Error ''Login failed'') (emit Console_error w1))
        | Rejected err \<Rightarrow>
            (p\<lparr>loading := False\<rparr>, a,
             emit (Toast Error (or_else (err_data_message err) ''Login failed''))
               (emit Console_error w1)))"

definition handleRegister ::
  "(json \<Rightarrow> string) \<Rightarrow> auth_data option response \<Rightarrow>
   login_page \<times> app \<times> world \<Rightarrow> login_page \<times> app \<times> world" where
  "handleRegister stringify resp = (\<lambda>(p, a, w).
     let w1 = emit (Request \<lparr>verb = POST, url = BACKEND_URL @ ''/api/register'',
                payload = Fields [(''name'', register_full_name p), (''email'', register_email p),
                                  (''password'', register_password p)],
                headers = [], timeout = None\<rparr>) w
     in case resp of
          Resolved (Some d) \<Rightarrow>
            (let (a2, w2) = login stringify (or_else (access_token d) ''dummy-token'')
                              (user_or_empty (auth_user d)) (a, w1)
             in (p\<lparr>loading := False\<rparr>, a2,
                 emit (Navigate ''/'') (emit (Toast Success ''Account created successfully!'') w2)))
        | Resolved None \<Rightarrow>
            (p\<lparr>loading := False\<rparr>, a,
             emit (Toast Error ''Registration failed'') (emit Console_error w1))
        | Rejected err \<Rightarrow>
            (p\<lparr>loading := False\<rparr>, a,
             emit (Toast Error (or_else (err_data_message err) ''Registration failed''))
               (emit Console_error w1)))"

section \<open>Dashboard page\<close>

record application =
  app_id :: string
  job_title :: string
  company :: string
  status :: string
  applied_at :: string

record dashboard =
  stats :: json
  resume :: json
  uploading :: bool
  recentApplications :: "application list"

definition get_request :: "string \<Rightarrow> (string \<times> string) list \<Rightarrow> request" where
  "get_request u hs = \<lparr>verb = GET, url = u, payload = No_body, headers = hs, timeout = None\<rparr>"

text \<open>
  \<open>fetchData\<close>: the three gets are issued together (\<open>Promise.all\<close>); the state is set
  only when all three resolve, otherwise the \<open>catch\<close> logs to the console.
  \<open>appsRes.data.slice(0, 5)\<close> is \<open>take 5\<close>; the applications answer is
  \<open>Resolved None\<close> when its body is not an array, and then \<open>slice\<close> throws into
  the \<open>catch\<close> after \<open>stats\<close> and \<open>resume\<close> have been set.
\<close>

definition fetchData ::
  "json response \<Rightarrow> json response \<Rightarrow> application list option response \<Rightarrow>
   dashboard \<times> world \<Rightarrow> dashboard \<times> world" where
  "fetchData statsRes resumeRes appsRes = (\<lambda>(d, w).
     let token = getItem ''token'' w;
         hs = auth_headers token;
         w1 = emit (Request (get_request (API @ ''/stats'') hs)) w;
         w2 = emit (Request (get_request (API @ ''/resume'') hs)) w1;
         w3 = emit (Request (get_request (API @ ''/applications'') hs)) w2
     in case (statsRes, resumeRes, appsRes) of
          (Resolved s, Resolved r, Resolved (Some apps)) \<Rightarrow>
            (d\<lparr>stats := s, resume := r, recentApplications := take 5 apps\<rparr>, w3)
        | (Resolved s, Resolved r, Resolved None) \<Rightarrow>
            (d\<lparr>stats := s, resume := r\<rparr>, emit Console_error w3)
        | _ \<Rightarrow> (d, emit Console_error w3))"

text \<open>
  \<open>handleFileUpload\<close> of the Dashboard: no file, no effect; otherwise the post is issued
  at once, with the two headers of the source and no timeout. On success the page
  re-fetches (the three answers of the re-fetch are arguments).
\<close>

definition Dashboard_handleFileUpload ::
  "upload_file option \<Rightarrow> json response \<Rightarrow>
   json response \<Rightarrow> json response \<Rightarrow> application list option response \<Rightarrow>
   dashboard \<times> world \<Rightarrow> dashboard \<times> world" where
  "Dashboard_handleFileUpload file uploadRes statsRes resumeRes appsRes = (\<lambda>(d, w).
     case file of
       None \<Rightarrow> (d, w)
     | Some f \<Rightarrow>
        (let d1 = d\<lparr>uploading := True\<rparr>;
             token = getItem ''token'' w;
             w1 = emit (Request \<lparr>verb = POST, url = API @ ''/resume/upload'',
                    payload = FormData [(''file'', f)],
                    headers = [(''Authorization'', bearer token),
                               (''Content-Type'', ''multipart/form-data'')],
                    timeout = None\<rparr>) w
         in case uploadRes of
              Resolved _ \<Rightarrow>
                (let (d2, w2) = fetchData statsRes resumeRes appsRes
                       (d1, emit (Toast Success ''Resume uploaded and parsed successfully!'') w1)
                 in (d2\<lparr>uploading := False\<rparr>, w2))
            | Rejected err \<Rightarrow>
                (d1\<lparr>uploading := False\<rparr>,
                 emit (Toast Error (or_else (err_detail err) ''Upload failed'')) w1)))"

section \<open>Status badges (Dashboard and Applications)\<close>

datatype icon = Clock | TrendingUp | XCircle | CheckCircle2

definition statusColors :: "(string \<times> string) list" where
  "statusColors =
     [(''applied'', ''bg-blue-500''),
      (''interview'', ''bg-purple-500''),
      (''rejected'', ''bg-red-500''),
      (''accepted'', ''bg-green-500''),
      (''pending'', ''bg-yellow-500'')]"

definition statusIcons :: "(string \<times> icon) list" where
  "statusIcons =
     [(''applied'', Clock),
      (''interview'', TrendingUp),
      (''rejected'', XCircle),
      (''accepted'', CheckCircle2),
      (''pending'', Clock)]"

text \<open>
  Both tables are object literals, so \<open>table[key]\<close> finds the literal's own properties
  and, failing that, the properties every object inherits from \<open>Object.prototype\<close>
  (functions, and the prototype object itself for \<open>__proto__\<close>); only a key that is
  neither gives \<open>undefined\<close>.
\<close>

definition Object_prototype :: "string list" where
  "Object_prototype =
     [''constructor'', ''hasOwnProperty'', ''isPrototypeOf'', ''propertyIsEnumerable'',
      ''toLocaleString'', ''toString'', ''valueOf'', ''__proto__'',
      ''__defineGetter__'', ''__defineSetter__'', ''__lookupGetter__'', ''__lookupSetter__'']"

datatype 'a property = Own 'a | Inherited string | Undefined_property

definition get_property :: "(string \<times> 'a) list \<Rightarrow> string \<Rightarrow> 'a property" where
  "get_property obj k =
     (case map_of obj k of
        Some v \<Rightarrow> Own v
      | None \<Rightarrow> if k \<in> set Object_prototype then Inherited k else Undefined_property)"

text \<open>
  \<open>s.replace(pat, rep)\<close> with a string pattern: the first occurrence is replaced
  (\<open>rep\<close> has no \<open>$\<close> pattern in this program).
\<close>

fun replace_first :: "string \<Rightarrow> string \<Rightarrow> string \<Rightarrow> string" where
  "replace_first pat rep [] = (if pat = [] then rep else [])"
| "replace_first pat rep (c # cs) =
     (if take (length pat) (c # cs) = pat then rep @ drop (length pat) (c # cs)
      else c # replace_first pat rep cs)"

datatype js_error = TypeError

text \<open>
  \<open>x.replace(pat, rep)\<close> where \<open>x\<close> was looked up in a table of strings: on
  \<open>undefined\<close> the property read throws, on an inherited function or object
  \<open>replace\<close> is \<open>undefined\<close> and the call throws.
\<close>

definition replace_call :: "string property \<Rightarrow> string \<Rightarrow> string \<Rightarrow> js_error + string" where
  "replace_call p pat rep = (case p of Own s \<Rightarrow> Inr (replace_first pat rep s) | _ \<Rightarrow> Inl TypeError)"

record badge =
  container_class :: string
  icon_class :: string
  badge_icon :: "icon property"
  label_class :: string
  label_text :: string

text \<open>
  The badge of a recent application on the Dashboard. The container's class only
  interpolates the colour; the first \<open>.replace\<close> is where a colour that is not a
  string throws, and nothing of the badge is rendered then.
\<close>

definition Dashboard_badge :: "application \<Rightarrow> js_error + badge" where
  "Dashboard_badge app =
     (let colour = get_property statusColors (status app)
      in case replace_call colour ''bg-'' ''text-'' of
           Inl e \<Rightarrow> Inl e
         | Inr text_colour \<Rightarrow>
             (case colour of
                Own c \<Rightarrow>
                  Inr \<lparr>container_class =
                         ''flex items-center gap-1 px-3 py-1 rounded-full '' @ c @ '' bg-opacity-10'',
                       icon_class = text_colour,
                       badge_icon = get_property statusIcons (status app),
                       label_class = ''text-xs font-medium '' @ text_colour,
                       label_text = status app\<rparr>
              | _ \<Rightarrow> Inl TypeError))"

text \<open>
  \<open>charAt(0).toUpperCase() + slice(1)\<close>; upper-casing is modelled on ASCII letters,
  which is all the badge reaches it with.
\<close>

definition toUpperCase_char :: "char \<Rightarrow> char" where
  "toUpperCase_char c =
     (let n = (of_char c :: nat) in if 97 \<le> n \<and> n \<le> 122 then char_of (n - 32) else c)"

fun capitalise :: "string \<Rightarrow> string" where
  "capitalise [] = []"
| "capitalise (c # cs) = toUpperCase_char c # cs"

definition Applications_badge :: "application \<Rightarrow> js_error + badge" where
  "Applications_badge app =
     (let colour = get_property statusColors (status app)
      in case replace_call colour ''bg-'' ''text-'' of
           Inl e \<Rightarrow> Inl e
         | Inr text_colour \<Rightarrow>
             (case colour of
                Own c \<Rightarrow>
                  Inr \<lparr>container_class =
                         ''flex items-center gap-2 px-4 py-2 rounded-full '' @ c @ '' bg-opacity-10'',
                       icon_class = text_colour,
                       badge_icon = get_property statusIcons (status app),
                       label_class = ''font-medium '' @ text_colour,
                       label_text = capitalise (status app)\<rparr>
              | _ \<Rightarrow> Inl TypeError))"

section \<open>Jobs page\<close>

record job =
  job_id :: string
  title :: string
  job_company :: string
  location :: string
  job_url :: string
  description :: string
  requirements :: string

record jobs_page =
  jobs :: "job list"
  jobs_loading :: bool
  dialogOpen :: bool
  applying :: "string option"
  formData :: "(string \<times> string) list"

definition fetchJobs :: "job list response \<Rightarrow> jobs_page \<times> world \<Rightarrow> jobs_page \<times> world" where
  "fetchJobs resp = (\<lambda>(p, w).
     let token = getItem ''token'' w;
         w1 = emit (Request (get_request (API @ ''/jobs'') (auth_headers token))) w
     in case resp of
          Resolved js \<Rightarrow> (p\<lparr>jobs := js\<rparr>, w1)
        | Rejected err \<Rightarrow> (p, emit (Toast Error ''Failed to fetch jobs'') w1))"

text \<open>
  \<open>handleDelete\<close>: \<open>confirmed\<close> is the user's answer to \<open>window.confirm\<close>; the
  job id is interpolated into the path as a string.
\<close>

definition handleDelete ::
  "bool \<Rightarrow> string \<Rightarrow> json response \<Rightarrow> job list response \<Rightarrow>
   jobs_page \<times> world \<Rightarrow> jobs_page \<times> world" where
  "handleDelete confirmed jobId delRes fetchRes = (\<lambda>(p, w).
     let w0 = emit (Confirm_dialog ''Are you sure you want to delete this job?'') w
     in if \<not> confirmed then (p, w0)
        else
          (let token = getItem ''token'' w0;
               w1 = emit (Request \<lparr>verb = DELETE, url = API @ ''/jobs/'' @ jobId,
                      payload = No_body, headers = auth_headers token, timeout = None\<rparr>) w0
           in case delRes of
                Resolved _ \<Rightarrow> fetchJobs fetchRes (p, emit (Toast Success ''Job deleted'') w1)
              | Rejected err \<Rightarrow> (p, emit (Toast Error ''Failed to delete job'') w1)))"

definition handleApply ::
  "string \<Rightarrow> json response \<Rightarrow> jobs_page \<times> world \<Rightarrow> jobs_page \<times> world" where
  "handleApply jobId resp = (\<lambda>(p, w).
     let w0 = emit (Toast_id Loading
                ''Generating tailored resume and cover letter with AI...'' ''applying'') w;
         token = getItem ''token'' w0;
         w1 = emit (Request \<lparr>verb = POST, url = API @ ''/applications/'' @ jobId,
                payload = Empty_object, headers = auth_headers token,
                timeout = Some 120000\<rparr>) w0
     in case resp of
          Resolved _ \<Rightarrow>
            (p\<lparr>applying := None\<rparr>,
             emit (Navigate ''/applications'')
               (emit (Toast_id Success
                  ''Application created! Tailored resume and cover letter generated.''
                  ''applying'') w1))
        | Rejected err \<Rightarrow>
            (p\<lparr>applying := None\<rparr>,
             emit (Toast_id Error (or_else (err_detail err) ''Failed to apply'') ''applying'') w1))"

section \<open>Resume Editor: the object store\<close>

text \<open>
  A cell of the store is an object (its own properties, in insertion order) or an array
  (its elements, and any named properties set on it). An element of an array is
  \<open>Some v\<close>, or \<open>None\<close> for a hole: an index below the length that holds nothing.
  An address is an index into the store; allocation appends.
\<close>

datatype cell =
    Object "(string \<times> val) list"
  | Array "val option list" "(string \<times> val) list"

type_synonym heap = "cell list"

fun truthy :: "val \<Rightarrow> bool" where
  "truthy Undefined = False"
| "truthy Null = False"
| "truthy (VBool b) = b"
| "truthy (VNum n) = (n \<noteq> 0)"
| "truthy (VStr s) = (s \<noteq> [])"
| "truthy (Ref _) = True"

definition alloc :: "cell \<Rightarrow> heap \<Rightarrow> val \<times> heap" where
  "alloc c h = (Ref (length h), h @ [c])"

definition cell_at :: "heap \<Rightarrow> nat \<Rightarrow> cell option" where
  "cell_at h r = (if r < length h then Some (h ! r) else None)"

fun props_of :: "cell \<Rightarrow> (string \<times> val) list" where
  "props_of (Object ps) = ps"
| "props_of (Array _ ps) = ps"

text \<open>
  \<open>x.k\<close> for a named property \<open>k\<close> of a value that is not \<open>null\<close> or
  \<open>undefined\<close> (the handlers read properties of truthy values only); the names read
  in this page are not built-in properties of arrays or primitives.
\<close>

definition get_prop :: "heap \<Rightarrow> val \<Rightarrow> string \<Rightarrow> val" where
  "get_prop h x k =
     (case x of
        Ref r \<Rightarrow>
          (case cell_at h r of
             Some c \<Rightarrow> (case map_of (props_of c) k of Some v \<Rightarrow> v | None \<Rightarrow> Undefined)
           | None \<Rightarrow> Undefined)
      | _ \<Rightarrow> Undefined)"

text \<open>What reading an element gives: a hole reads as \<open>undefined\<close>.\<close>

fun read_elem :: "val option \<Rightarrow> val" where
  "read_elem None = Undefined"
| "read_elem (Some v) = v"

text \<open>\<open>arr[i]\<close>: \<open>undefined\<close> out of range and at a hole.\<close>

definition get_index :: "heap \<Rightarrow> val \<Rightarrow> nat \<Rightarrow> val" where
  "get_index h x i =
     (case x of
        Ref r \<Rightarrow>
          (case cell_at h r of
             Some (Array vs _) \<Rightarrow> if i < length vs then read_elem (vs ! i) else Undefined
           | _ \<Rightarrow> Undefined)
      | _ \<Rightarrow> Undefined)"

fun set_prop :: "string \<Rightarrow> val \<Rightarrow> (string \<times> val) list \<Rightarrow> (string \<times> val) list" where
  "set_prop k v [] = [(k, v)]"
| "set_prop k v ((k', v') # ps) = (if k = k' then (k, v) # ps else (k', v') # set_prop k v ps)"

text \<open>\<open>arr[i] = v\<close> on a list of elements: past the end JavaScript extends the array with holes.\<close>

definition set_elem :: "val option list \<Rightarrow> nat \<Rightarrow> val \<Rightarrow> val option list" where
  "set_elem vs i v =
     (if i < length vs then vs[i := Some v] else vs @ replicate (i - length vs) None @ [Some v])"

definition assign_index :: "heap \<Rightarrow> val \<Rightarrow> nat \<Rightarrow> val \<Rightarrow> heap" where
  "assign_index h x i v =
     (case x of
        Ref r \<Rightarrow>
          (case cell_at h r of
             Some (Array vs ps) \<Rightarrow> h[r := Array (set_elem vs i v) ps]
           | _ \<Rightarrow> h)
      | _ \<Rightarrow> h)"

text \<open>
  \<open>x[field] = v\<close> for a property name \<open>field\<close>: the object \<open>x\<close> refers to is
  changed in place. On \<open>undefined\<close> and \<open>null\<close> the assignment throws, and so it
  does on a primitive in strict mode (the pages are modules).
\<close>

definition assign_member :: "heap \<Rightarrow> val \<Rightarrow> string \<Rightarrow> val \<Rightarrow> js_error + heap" where
  "assign_member h x field v =
     (case x of
        Ref r \<Rightarrow>
          (case cell_at h r of
             Some (Object ps) \<Rightarrow> Inr (h[r := Object (set_prop field v ps)])
           | Some (Array vs ps) \<Rightarrow> Inr (h[r := Array vs (set_prop field v ps)])
           | None \<Rightarrow> Inl TypeError)
      | _ \<Rightarrow> Inl TypeError)"

text \<open>
  The elements \<open>[...x]\<close> iterates: those of an array, with \<open>undefined\<close> for each
  hole, or the characters of a string; anything else is not iterable. The array a spread
  builds from them has no holes.
\<close>

definition iterate :: "heap \<Rightarrow> val \<Rightarrow> js_error + val list" where
  "iterate h x =
     (case x of
        Ref r \<Rightarrow>
          (case cell_at h r of
             Some (Array vs _) \<Rightarrow> Inr (map read_elem vs)
           | _ \<Rightarrow> Inl TypeError)
      | VStr s \<Rightarrow> Inr (map (\<lambda>c. VStr [c]) s)
      | _ \<Rightarrow> Inl TypeError)"

text \<open>
  The elements of \<open>x\<close>, holes included, when \<open>x.filter\<close> can be called: \<open>x\<close> is
  an array.
\<close>

definition array_elems :: "heap \<Rightarrow> val \<Rightarrow> js_error + val option list" where
  "array_elems h x =
     (case x of
        Ref r \<Rightarrow> (case cell_at h r of Some (Array vs _) \<Rightarrow> Inr vs | _ \<Rightarrow> Inl TypeError)
      | _ \<Rightarrow> Inl TypeError)"

text \<open>\<open>{...x}\<close> for the draft, which is always the object of an object literal.\<close>

definition own_props :: "heap \<Rightarrow> val \<Rightarrow> (string \<times> val) list" where
  "own_props h x =
     (case x of
        Ref r \<Rightarrow> (case cell_at h r of Some (Object ps) \<Rightarrow> ps | _ \<Rightarrow> [])
      | _ \<Rightarrow> [])"

text \<open>\<open>v || <literal>\<close>: the literal is allocated only when \<open>v\<close> is falsy.\<close>

definition or_new :: "val \<Rightarrow> cell \<Rightarrow> heap \<Rightarrow> val \<times> heap" where
  "or_new v c h = (if truthy v then (v, h) else alloc c h)"

definition or_str :: "val \<Rightarrow> string \<Rightarrow> val" where
  "or_str v s = (if truthy v then v else VStr s)"

text \<open>axios parses the response body into fresh objects of the store.\<close>

fun alloc_json :: "json \<Rightarrow> heap \<Rightarrow> val \<times> heap"
and alloc_elems :: "json list \<Rightarrow> heap \<Rightarrow> val list \<times> heap"
and alloc_props :: "(string \<times> json) list \<Rightarrow> heap \<Rightarrow> (string \<times> val) list \<times> heap" where
  "alloc_json JNull h = (Null, h)"
| "alloc_json (JBool b) h = (VBool b, h)"
| "alloc_json (JNum n) h = (VNum n, h)"
| "alloc_json (JStr s) h = (VStr s, h)"
| "alloc_json (JArr js) h =
     (case alloc_elems js h of (vs, h1) \<Rightarrow> alloc (Array (map Some vs) []) h1)"
| "alloc_json (JObj fs) h = (case alloc_props fs h of (ps, h1) \<Rightarrow> alloc (Object ps) h1)"
| "alloc_elems [] h = ([], h)"
| "alloc_elems (j # js) h =
     (case alloc_json j h of (v, h1) \<Rightarrow>
        (case alloc_elems js h1 of (vs, h2) \<Rightarrow> (v # vs, h2)))"
| "alloc_props [] h = ([], h)"
| "alloc_props ((k, j) # fs) h =
     (case alloc_json j h of (v, h1) \<Rightarrow>
        (case alloc_props fs h1 of (ps, h2) \<Rightarrow> ((k, v) # ps, h2)))"

section \<open>Resume Editor: handlers\<close>

text \<open>
  The body of \<open>GET /resume\<close> when it is not \<open>null\<close>, and the \<open>resume\<close> state made
  from it: the state's \<open>parsed_data\<close> refers to the parsed object in the store.
\<close>

record resume_body =
  body_id :: string
  body_file_name :: string
  body_uploaded_at :: string
  body_parsed_data :: "json option"

record resume_doc =
  resume_id :: string
  resume_file_name :: string
  uploaded_at :: string
  parsed_data :: val

record editor =
  store :: heap
  editor_resume :: "resume_doc option"
  editing :: bool
  saving :: bool
  editor_uploading :: bool
  editData :: val

text \<open>The state \<open>useState\<close> starts the editor with: the empty draft.\<close>

definition initial_editor :: editor where
  "initial_editor =
     \<lparr>store = [Array [] [], Array [] [], Array [] [], Array [] [],
               Object [(''name'', VStr []), (''email'', VStr []), (''phone'', VStr []),
                       (''summary'', VStr []), (''skills'', Ref 0), (''experience'', Ref 1),
                       (''education'', Ref 2), (''keywords'', Ref 3)]],
      editor_resume = None, editing = False, saving = False, editor_uploading = False,
      editData = Ref 4\<rparr>"

text \<open>
  \<open>fetchResume\<close> up to its \<open>await\<close>: without a token it notifies and navigates, with
  one it calls axios. The result tells whether the request was issued.
\<close>

definition fetchResume_begin :: "world \<Rightarrow> bool \<times> world" where
  "fetchResume_begin w =
     (let token = or_else (getItem ''token'' w) []
      in if token = [] then
           (False, emit (Navigate ''/login'') (emit (Toast Error ''Please log in to continue'') w))
         else
           (True, emit (Request (get_request (API @ ''/api/resume'')
                                  [(''Authorization'', ''Bearer '' @ token)])) w))"

text \<open>\<open>fetchResume\<close> after the \<open>await\<close>: the \<open>if (response.data)\<close> block, or the \<open>catch\<close>.\<close>

definition fetchResume_settle ::
  "resume_body option response \<Rightarrow> editor \<times> world \<Rightarrow> editor \<times> world" where
  "fetchResume_settle resp = (\<lambda>(s, w).
     case resp of
       Resolved None \<Rightarrow> (s, w)
     | Resolved (Some b) \<Rightarrow>
         (let (pd, h1) = (case body_parsed_data b of
                            None \<Rightarrow> (Undefined, store s)
                          | Some j \<Rightarrow> alloc_json j (store s));
              (parsed, h2) = or_new pd (Object []) h1;
              (skills, h3) = or_new (get_prop h2 parsed ''skills'') (Array [] []) h2;
              (experience, h4) = or_new (get_prop h3 parsed ''experience'') (Array [] []) h3;
              (education, h5) = or_new (get_prop h4 parsed ''education'') (Array [] []) h4;
              (keywords, h6) = or_new (get_prop h5 parsed ''keywords'') (Array [] []) h5;
              (draft, h7) = alloc (Object
                 [(''name'', or_str (get_prop h6 parsed ''name'') []),
                  (''email'', or_str (get_prop h6 parsed ''email'') []),
                  (''phone'', or_str (get_prop h6 parsed ''phone'') []),
                  (''summary'', or_str (get_prop h6 parsed ''summary'') []),
                  (''skills'', skills),
                  (''experience'', experience),
                  (''education'', education),
                  (''keywords'', keywords)]) h6
          in (s\<lparr>store := h7,
                 editor_resume := Some \<lparr>resume_id = body_id b, resume_file_name = body_file_name b,
                                         uploaded_at = body_uploaded_at b, parsed_data = pd\<rparr>,
                 editData := draft\<rparr>, w))
     | Rejected err \<Rightarrow>
         (let w1 = emit Console_error w
          in if err_status err = Some 401
             then (s, emit (Navigate ''/login'')
                        (emit (Toast Error ''Session expired. Please log in again.'') w1))
             else (s, w1)))"

definition fetchResume ::
  "resume_body option response \<Rightarrow> editor \<times> world \<Rightarrow> editor \<times> world" where
  "fetchResume resp = (\<lambda>(s, w).
     case fetchResume_begin w of
       (False, w1) \<Rightarrow> (s, w1)
     | (True, w1) \<Rightarrow> fetchResume_settle resp (s, w1))"

definition allowedTypes :: "string list" where
  "allowedTypes =
     [''application/pdf'',
      ''text/plain'',
      ''application/msword'',
      ''application/vnd.openxmlformats-officedocument.wordprocessingml.document'']"

text \<open>
  \<open>handleFileUpload\<close> of the Resume Editor. After a successful upload
  \<open>fetchResume()\<close> is called without \<open>await\<close>: it runs to its own \<open>await\<close>, the
  \<open>finally\<close> block runs, and the re-fetch settles afterwards.
\<close>

definition ResumeEditor_handleFileUpload ::
  "upload_file option \<Rightarrow> json response \<Rightarrow> resume_body option response \<Rightarrow>
   editor \<times> world \<Rightarrow> editor \<times> world" where
  "ResumeEditor_handleFileUpload file uploadRes fetchRes = (\<lambda>(s, w).
     case file of
       None \<Rightarrow> (s, w)
     | Some f \<Rightarrow>
         if file_type f \<notin> set allowedTypes then
           (s, emit (Toast Error ''Only PDF, DOC, DOCX, or TXT files are allowed.'') w)
         else
           (let s1 = s\<lparr>editor_uploading := True\<rparr>;
                token = or_else (getItem ''token'' w) []
            in if token = [] then
                 (s1, emit (Navigate ''/login'') (emit (Toast Error ''Authentication required'') w))
               else
                 (let w1 = emit (Request \<lparr>verb = POST, url = API @ ''/api/resume/upload'',
                                   payload = FormData [(''file'', f)],
                                   headers = [(''Authorization'', ''Bearer '' @ token)],
                                   timeout = Some 30000\<rparr>) w
                  in case uploadRes of
                       Resolved _ \<Rightarrow>
                         (let w2 = emit (Toast Success ''Resume uploaded and parsed successfully!'') w1;
                              (issued, w3) = fetchResume_begin w2;
                              s2 = s1\<lparr>editor_uploading := False\<rparr>;
                              w4 = emit Reset_input w3
                          in if issued then fetchResume_settle fetchRes (s2, w4) else (s2, w4))
                     | Rejected err \<Rightarrow>
                         (s1\<lparr>editor_uploading := False\<rparr>,
                          emit Reset_input
                            (emit (Toast Error
                               (or_else (err_detail err)
                                 (or_else (err_error err)
                                   (or_else (err_message err)
                                     ''Upload failed. Please try again.'')))) w1)))))"

text \<open>
  \<open>handleSave\<close>: the draft is put under the resume's id (a string, interpolated into
  the path); on success the page leaves edit mode and re-fetches.
\<close>

definition handleSave ::
  "json response \<Rightarrow> resume_body option response \<Rightarrow> editor \<times> world \<Rightarrow> editor \<times> world" where
  "handleSave saveRes fetchRes = (\<lambda>(s, w).
     case editor_resume s of
       None \<Rightarrow> (s, w)
     | Some r \<Rightarrow>
         (let s1 = s\<lparr>saving := True\<rparr>;
              token = getItem ''token'' w;
              w1 = emit (Request \<lparr>verb = PUT, url = API @ ''/api/resume/'' @ resume_id r,
                           payload = Heap_value (editData s),
                           headers = auth_headers token, timeout = None\<rparr>) w
          in case saveRes of
               Resolved _ \<Rightarrow>
                 (let w2 = emit (Toast Success ''Resume updated successfully!'') w1;
                      (issued, w3) = fetchResume_begin w2;
                      s2 = s1\<lparr>editing := False, saving := False\<rparr>
                  in if issued then fetchResume_settle fetchRes (s2, w3) else (s2, w3))
             | Rejected err \<Rightarrow>
                 (s1\<lparr>saving := False\<rparr>,
                  emit (Toast Error (or_else (err_detail err) ''Failed to save resume'')) w1)))"

section \<open>Resume Editor: operations on the draft\<close>

text \<open>
  \<open>setEditData({ ...editData, [key]: v })\<close>: a new draft object; the object the state
  held before stays in the store as it was.
\<close>

definition setEditData_with :: "string \<Rightarrow> val \<Rightarrow> editor \<Rightarrow> heap \<Rightarrow> editor" where
  "setEditData_with key v s h =
     (case alloc (Object (set_prop key v (own_props h (editData s)))) h of
        (draft, h1) \<Rightarrow> s\<lparr>store := h1, editData := draft\<rparr>)"

text \<open>\<open>addSkill\<close>: the spread array with the empty string appended.\<close>

definition addSkill :: "editor \<Rightarrow> js_error + editor" where
  "addSkill s =
     (let h = store s
      in case iterate h (get_prop h (editData s) ''skills'') of
           Inl e \<Rightarrow> Inl e
         | Inr vs \<Rightarrow>
             (case alloc (Array (map Some (vs @ [VStr []])) []) h of
                (arr, h1) \<Rightarrow> Inr (setEditData_with ''skills'' arr s h1)))"

definition updateSkill :: "nat \<Rightarrow> string \<Rightarrow> editor \<Rightarrow> js_error + editor" where
  "updateSkill index v s =
     (let h = store s
      in case iterate h (get_prop h (editData s) ''skills'') of
           Inl e \<Rightarrow> Inl e
         | Inr vs \<Rightarrow>
             (case alloc (Array (map Some vs) []) h of
                (newSkills, h1) \<Rightarrow>
                  (let h2 = assign_index h1 newSkills index (VStr v)
                   in Inr (setEditData_with ''skills'' newSkills s h2))))"

text \<open>
  \<open>arr.filter((_, i) => i !== index)\<close> on the elements from index \<open>i\<close> on:
  \<open>filter\<close> visits the indices that hold an element, in order, and keeps the elements
  the callback accepts; holes are skipped and the result has none.
\<close>

fun filter_not_index :: "nat \<Rightarrow> nat \<Rightarrow> val option list \<Rightarrow> val list" where
  "filter_not_index index i [] = []"
| "filter_not_index index i (None # es) = filter_not_index index (Suc i) es"
| "filter_not_index index i (Some v # es) =
     (if i \<noteq> index then v # filter_not_index index (Suc i) es
      else filter_not_index index (Suc i) es)"

definition remove_from :: "string \<Rightarrow> nat \<Rightarrow> editor \<Rightarrow> js_error + editor" where
  "remove_from key index s =
     (let h = store s
      in case array_elems h (get_prop h (editData s) key) of
           Inl e \<Rightarrow> Inl e
         | Inr vs \<Rightarrow>
             (case alloc (Array (map Some (filter_not_index index 0 vs)) []) h of
                (arr, h1) \<Rightarrow> Inr (setEditData_with key arr s h1)))"

definition removeSkill :: "nat \<Rightarrow> editor \<Rightarrow> js_error + editor" where
  "removeSkill = remove_from ''skills''"

text \<open>
  \<open>addExperience\<close> and \<open>addEducation\<close>: the spread array with a fresh entry
  object appended.
\<close>

definition add_entry :: "string \<Rightarrow> (string \<times> val) list \<Rightarrow> editor \<Rightarrow> js_error + editor" where
  "add_entry key blank s =
     (let h = store s
      in case iterate h (get_prop h (editData s) key) of
           Inl e \<Rightarrow> Inl e
         | Inr vs \<Rightarrow>
             (case alloc (Object blank) h of
                (entry, h1) \<Rightarrow>
                  (case alloc (Array (map Some (vs @ [entry])) []) h1 of
                     (arr, h2) \<Rightarrow> Inr (setEditData_with key arr s h2))))"

definition addExperience :: "editor \<Rightarrow> js_error + editor" where
  "addExperience =
     add_entry ''experience''
       [(''title'', VStr []), (''company'', VStr []), (''duration'', VStr []),
        (''description'', VStr [])]"

definition addEducation :: "editor \<Rightarrow> js_error + editor" where
  "addEducation =
     add_entry ''education''
       [(''degree'', VStr []), (''institution'', VStr []), (''year'', VStr [])]"

text \<open>
  \<open>updateExperience\<close> and \<open>updateEducation\<close> have one body:
  \<^verbatim>\<open>const copy = [...editData[key]]; copy[index][field] = value;\<close>
  \<^verbatim>\<open>setEditData({ ...editData, [key]: copy });\<close>
  The array is copied; \<open>copy[index]\<close> is the entry object the draft's own array
  refers to, and the assignment writes into it.
\<close>

definition update_entry :: "string \<Rightarrow> nat \<Rightarrow> string \<Rightarrow> string \<Rightarrow> editor \<Rightarrow> js_error + editor" where
  "update_entry key index field v s =
     (let h = store s
      in case iterate h (get_prop h (editData s) key) of
           Inl e \<Rightarrow> Inl e
         | Inr vs \<Rightarrow>
             (case alloc (Array (map Some vs) []) h of
                (copy, h1) \<Rightarrow>
                  (case assign_member h1 (get_index h1 copy index) field (VStr v) of
                     Inl e \<Rightarrow> Inl e
                   | Inr h2 \<Rightarrow> Inr (setEditData_with key copy s h2))))"

definition updateExperience :: "nat \<Rightarrow> string \<Rightarrow> string \<Rightarrow> editor \<Rightarrow> js_error + editor" where
  "updateExperience = update_entry ''experience''"

definition updateEducation :: "nat \<Rightarrow> string \<Rightarrow> string \<Rightarrow> editor \<Rightarrow> js_error + editor" where
  "updateEducation = update_entry ''education''"

definition removeExperience :: "nat \<Rightarrow> editor \<Rightarrow> js_error + editor" where
  "removeExperience = remove_from ''experience''"

definition removeEducation :: "nat \<Rightarrow> editor \<Rightarrow> js_error + editor" where
  "removeEducation = remove_from ''education''"

section \<open>Layout: logging out\<close>

definition handleLogout :: "app \<times> world \<Rightarrow> app \<times> world" where
  "handleLogout aw = (case logout aw of (a, w) \<Rightarrow> (a, emit (Navigate ''/login'') w))"

section \<open>Concrete states used to run the handlers\<close>

definition empty_world :: world where
  "empty_world = \<lparr>localStorage = Map.empty, log = []\<rparr>"

text \<open>A signed-in browser: both session entries are stored, nothing has happened yet.\<close>

definition session_world :: world where
  "session_world =
     \<lparr>localStorage = [''token'' \<mapsto> ''abc'', ''user'' \<mapsto> ''{}''], log = []\<rparr>"

definition signed_out :: app where
  "signed_out = \<lparr>user = None\<rparr>"

text \<open>The context of a signed-in user, as \<open>login\<close> sets it.\<close>

definition signed_in :: app where
  "signed_in = \<lparr>user = Some (JObj [])\<rparr>"

definition valid_auth_data :: auth_data where
  "valid_auth_data =
     \<lparr>access_token = Some ''abc'', auth_user = Some (JObj [(''email'', JStr ''a@b.c'')])\<rparr>"

definition blank_login_page :: login_page where
  "blank_login_page =
     \<lparr>loading = False, login_email = ''a@b.c'', login_password = ''pw'',
      register_email = ''a@b.c'', register_password = ''pw'', register_full_name = ''Ann''\<rparr>"

definition no_auth_data :: auth_data where
  "no_auth_data = \<lparr>access_token = None, auth_user = None\<rparr>"

definition unauthorized :: axios_error where
  "unauthorized =
     \<lparr>err_status = Some 401, err_detail = None, err_error = None, err_data_message = None,
      err_message = Some ''Request failed with status code 401''\<rparr>"

definition blank_dashboard :: dashboard where
  "blank_dashboard = \<lparr>stats = JNull, resume = JNull, uploading = False, recentApplications = []\<rparr>"

definition no_jobs :: jobs_page where
  "no_jobs = \<lparr>jobs = [], jobs_loading = False, dialogOpen = False, applying = None, formData = []\<rparr>"

definition png_file :: upload_file where
  "png_file = \<lparr>file_name = ''photo.png'', file_type = ''image/png''\<rparr>"

definition pdf_file :: upload_file where
  "pdf_file = \<lparr>file_name = ''cv.pdf'', file_type = ''application/pdf''\<rparr>"

definition application_with :: "string \<Rightarrow> application" where
  "application_with st =
     \<lparr>app_id = ''1'', job_title = ''Engineer'', company = ''Acme'', status = st,
      applied_at = ''2024-01-01''\<rparr>"

text \<open>
  An editor that has fetched a resume with one skill, one experience entry and one
  education entry: the state \<open>fetchResume\<close> leaves behind, starting from the initial one.
\<close>

definition sample_body :: resume_body where
  "sample_body =
     \<lparr>body_id = ''7'', body_file_name = ''cv.pdf'', body_uploaded_at = ''2024-01-01'',
      body_parsed_data = Some (JObj
        [(''name'', JStr ''Ann''),
         (''skills'', JArr [JStr ''SQL'']),
         (''experience'', JArr [JObj [(''title'', JStr ''Engineer''), (''company'', JStr ''Acme'')]]),
         (''education'', JArr [JObj [(''degree'', JStr ''BSc''), (''year'', JStr ''2019'')]])])\<rparr>"

definition sample_editor :: editor where
  "sample_editor =
     fst (fetchResume_settle (Resolved (Some sample_body)) (initial_editor, empty_world))"

text \<open>\<open>draft[key][index][field]\<close>, read in a given store.\<close>

definition read_entry :: "heap \<Rightarrow> val \<Rightarrow> string \<Rightarrow> nat \<Rightarrow> string \<Rightarrow> val" where
  "read_entry h draft key index field = get_prop h (get_index h (get_prop h draft key) index) field"

section \<open>Basic facts about the world\<close>

lemma emit_simps:
  "log (emit e w) = log w @ [e]" "localStorage (emit e w) = localStorage w"
  by (simp_all add: emit_def)

lemma setItem_simps:
  "log (setItem k v w) = log w @ [Set_item k v]"
  "localStorage (setItem k v w) = (localStorage w)(k \<mapsto> v)"
  by (simp_all add: setItem_def emit_def)

lemma or_else_nonempty: "d \<noteq> [] \<Longrightarrow> or_else x d \<noteq> []"
  by (cases x) auto

lemma requests_of_append: "requests_of (xs @ ys) = requests_of xs @ requests_of ys"
  by (induction xs rule: requests_of.induct) simp_all

section \<open>Login and register\<close>

text \<open>What a successful login does, written out: the new states and the effects in order.\<close>

lemma handleLogin_Resolved:
  "handleLogin stringify (Resolved (Some d)) (p, a, w) =
     (p\<lparr>loading := False\<rparr>,
      a\<lparr>user := Some (user_or_empty (auth_user d))\<rparr>,
      w\<lparr>localStorage := (localStorage w)
            (''token'' \<mapsto> or_else (access_token d) ''dummy-token'',
             ''user'' \<mapsto> stringify (user_or_empty (auth_user d))),
        log := log w @
          [Request \<lparr>verb = POST, url = ''http://127.0.0.1:5000/api/login'',
             payload = Fields [(''email'', login_email p), (''password'', login_password p)],
             headers = [], timeout = None\<rparr>,
           Set_item ''token'' (or_else (access_token d) ''dummy-token''),
           Set_item ''user'' (stringify (user_or_empty (auth_user d))),
           Toast Success ''Welcome back!'',
           Navigate ''/'']\<rparr>)"
  by (simp add: handleLogin_def login_def setItem_def emit_def BACKEND_URL_def Let_def)

lemma handleRegister_Resolved:
  "handleRegister stringify (Resolved (Some d)) (p, a, w) =
     (p\<lparr>loading := False\<rparr>,
      a\<lparr>user := Some (user_or_empty (auth_user d))\<rparr>,
      w\<lparr>localStorage := (localStorage w)
            (''token'' \<mapsto> or_else (access_token d) ''dummy-token'',
             ''user'' \<mapsto> stringify (user_or_empty (auth_user d))),
        log := log w @
          [Request \<lparr>verb = POST, url = ''http://127.0.0.1:5000/api/register'',
             payload = Fields [(''name'', register_full_name p), (''email'', register_email p),
                               (''password'', register_password p)],
             headers = [], timeout = None\<rparr>,
           Set_item ''token'' (or_else (access_token d) ''dummy-token''),
           Set_item ''user'' (stringify (user_or_empty (auth_user d))),
           Toast Success ''Account created successfully!'',
           Navigate ''/'']\<rparr>)"
  by (simp add: handleRegister_def login_def setItem_def emit_def BACKEND_URL_def Let_def)

lemma login_persists:
  "localStorage (snd (login stringify token userData (a, w))) ''token'' = Some token"
  "localStorage (snd (login stringify token userData (a, w))) ''user'' = Some (stringify userData)"
  by (simp_all add: login_def setItem_def emit_def)

text \<open>
  Claim C10. When a login or register request succeeds with a body that lacks
  \<open>access_token\<close>, the token persisted is the literal \<open>dummy-token\<close>; when the body
  lacks \<open>user\<close>, the user persisted is the serialised empty object and the context's
  user is the empty object. In every case the session exists afterwards: the route guard
  lets the protected pages render. So a persisted token need not come from the server.
\<close>

theorem session_created_without_server_token:
  "(access_token d = None \<longrightarrow>
      localStorage (snd (snd (handleLogin stringify (Resolved (Some d)) (p, a, w)))) ''token''
        = Some ''dummy-token'' \<and>
      localStorage (snd (snd (handleRegister stringify (Resolved (Some d)) (p, a, w)))) ''token''
        = Some ''dummy-token'') \<and>
   (auth_user d = None \<longrightarrow>
      localStorage (snd (snd (handleLogin stringify (Resolved (Some d)) (p, a, w)))) ''user''
        = Some (stringify (JObj [])) \<and>
      user (fst (snd (handleLogin stringify (Resolved (Some d)) (p, a, w)))) = Some (JObj []) \<and>
      localStorage (snd (snd (handleRegister stringify (Resolved (Some d)) (p, a, w)))) ''user''
        = Some (stringify (JObj [])) \<and>
      user (fst (snd (handleRegister stringify (Resolved (Some d)) (p, a, w)))) = Some (JObj [])) \<and>
   ProtectedRoute (snd (snd (handleLogin stringify (Resolved (Some d)) (p, a, w)))) = Children \<and>
   ProtectedRoute (snd (snd (handleRegister stringify (Resolved (Some d)) (p, a, w)))) = Children"
  using or_else_nonempty [of "''dummy-token''" "access_token d"]
  by (simp add: handleLogin_Resolved handleRegister_Resolved user_or_empty_def
        ProtectedRoute_def getItem_def)

theorem session_created_without_server_token_witness:
  "access_token no_auth_data = None \<and> auth_user no_auth_data = None \<and>
   localStorage (snd (snd (handleLogin (\<lambda>j. ''{}'') (Resolved (Some no_auth_data))
       (blank_login_page, signed_out, empty_world)))) ''token'' = Some ''dummy-token'' \<and>
   localStorage (snd (snd (handleLogin (\<lambda>j. ''{}'') (Resolved (Some no_auth_data))
       (blank_login_page, signed_out, empty_world)))) ''user'' = Some ''{}'' \<and>
   localStorage (snd (snd (handleRegister (\<lambda>j. ''{}'') (Resolved (Some no_auth_data))
       (blank_login_page, signed_out, empty_world)))) ''token'' = Some ''dummy-token'' \<and>
   ProtectedRoute (snd (snd (handleLogin (\<lambda>j. ''{}'') (Resolved (Some no_auth_data))
       (blank_login_page, signed_out, empty_world)))) = Children"
  using session_created_without_server_token
    [where d = no_auth_data and stringify = "\<lambda>j. ''{}''" and p = blank_login_page
       and a = signed_out and w = empty_world]
  by (simp add: no_auth_data_def)

section \<open>Dashboard: the mount fetch\<close>

lemma fetchData_Resolved:
  "fetchData (Resolved s) (Resolved r) (Resolved (Some apps)) (d, w) =
     (d\<lparr>stats := s, resume := r, recentApplications := take 5 apps\<rparr>,
      w\<lparr>log := log w @
         [Request (get_request ''http://127.0.0.1:5000/api/stats''
                     (auth_headers (localStorage w ''token''))),
          Request (get_request ''http://127.0.0.1:5000/api/resume''
                     (auth_headers (localStorage w ''token''))),
          Request (get_request ''http://127.0.0.1:5000/api/applications''
                     (auth_headers (localStorage w ''token'')))]\<rparr>)"
  by (simp add: fetchData_def emit_def Let_def API_def getItem_def)

lemma fetchData_storage:
  "localStorage (snd (fetchData statsRes resumeRes appsRes (d, w))) = localStorage w"
  by (simp add: fetchData_def emit_def Let_def split: response.splits option.splits)

text \<open>
  Claim C8. When the three requests of the Dashboard's mount fetch succeed, the recent
  applications shown are the first five of the collection returned for
  \<open>/applications\<close>: never more than five, and the whole collection when it has fewer.
  \<open>login\<close> stores the token and the serialised user. The login handler, on a
  successful answer, stores the token of the body (or \<open>dummy-token\<close>) and the
  serialised user of the body (or the empty object), sets the context's user, and only
  then navigates to \<open>/\<close>: with the token and the user object the server sent, these
  are what is stored. The route guard then shows the dashboard, whose mount fetch sends
  the stored token and shows the first five applications.
\<close>

theorem dashboard_recent_applications_after_login:
  "recentApplications (fst (fetchData (Resolved s) (Resolved r) (Resolved (Some apps)) (d, w)))
     = take 5 apps \<and>
   length (recentApplications (fst (fetchData (Resolved s) (Resolved r) (Resolved (Some apps)) (d, w))))
     \<le> 5 \<and>
   (length apps < 5 \<longrightarrow>
      recentApplications (fst (fetchData (Resolved s) (Resolved r) (Resolved (Some apps)) (d, w)))
        = apps) \<and>
   localStorage (snd (login stringify token userData (a, w0))) ''token'' = Some token \<and>
   localStorage (snd (login stringify token userData (a, w0))) ''user''
     = Some (stringify userData) \<and>
   (let tok = (case access_token data of
                 None \<Rightarrow> ''dummy-token''
               | Some t \<Rightarrow> if t = [] then ''dummy-token'' else t);
        usr = (case auth_user data of
                 None \<Rightarrow> JObj []
               | Some u \<Rightarrow> if truthy_json u then u else JObj []);
        after = handleLogin stringify (Resolved (Some data)) (p, a, w0)
    in after =
         (p\<lparr>loading := False\<rparr>,
          a\<lparr>user := Some usr\<rparr>,
          w0\<lparr>localStorage := (localStorage w0)(''token'' \<mapsto> tok, ''user'' \<mapsto> stringify usr),
             log := log w0 @
               [Request \<lparr>verb = POST, url = ''http://127.0.0.1:5000/api/login'',
                  payload = Fields [(''email'', login_email p), (''password'', login_password p)],
                  headers = [], timeout = None\<rparr>,
                Set_item ''token'' tok,
                Set_item ''user'' (stringify usr),
                Toast Success ''Welcome back!'',
                Navigate ''/'']\<rparr>) \<and>
       localStorage (snd (snd after)) ''token'' = Some tok \<and>
       localStorage (snd (snd after)) ''user'' = Some (stringify usr) \<and>
       user (fst (snd after)) = Some usr \<and>
       Routes (fst (snd after)) (snd (snd after)) ''/'' = View Dashboard_view \<and>
       recentApplications (fst (fetchData (Resolved s) (Resolved r) (Resolved (Some apps))
           (d, snd (snd after)))) = take 5 apps \<and>
       map headers (drop (length (requests_of (log (snd (snd after)))))
           (requests_of (log (snd (fetchData (Resolved s) (Resolved r) (Resolved (Some apps))
              (d, snd (snd after)))))))
         = replicate 3 [(''Authorization'', ''Bearer '' @ tok)]) \<and>
   (access_token data = Some t \<and> t \<noteq> [] \<and> auth_user data = Some (JObj kvs) \<longrightarrow>
      localStorage (snd (snd (handleLogin stringify (Resolved (Some data)) (p, a, w0)))) ''token''
        = Some t \<and>
      localStorage (snd (snd (handleLogin stringify (Resolved (Some data)) (p, a, w0)))) ''user''
        = Some (stringify (JObj kvs)) \<and>
      user (fst (snd (handleLogin stringify (Resolved (Some data)) (p, a, w0))))
        = Some (JObj kvs))"
proof -
  have recent:
    "\<And>w'. recentApplications (fst (fetchData (Resolved s) (Resolved r) (Resolved (Some apps)) (d, w')))
       = take 5 apps"
    by (simp add: fetchData_Resolved)
  have short: "length apps < 5 \<Longrightarrow> take 5 apps = apps"
    by simp
  have tok: "or_else (access_token data) ''dummy-token''
      = (case access_token data of
           None \<Rightarrow> ''dummy-token''
         | Some t \<Rightarrow> if t = [] then ''dummy-token'' else t)"
    by (cases "access_token data") simp_all
  have tok_nonempty: "or_else (access_token data) ''dummy-token'' \<noteq> []"
    by (rule or_else_nonempty) simp
  have usr: "user_or_empty (auth_user data)
      = (case auth_user data of
           None \<Rightarrow> JObj []
         | Some u \<Rightarrow> if truthy_json u then u else JObj [])"
    by (simp add: user_or_empty_def)
  have guard: "Routes a' w' ''/'' = View Dashboard_view"
    if "localStorage w' ''token'' = Some (or_else (access_token data) ''dummy-token'')"
    for a' w'
    using that tok_nonempty by (simp add: Routes_def guarded_def ProtectedRoute_def getItem_def)
  have login_part:
    "let tok = (case access_token data of
                 None \<Rightarrow> ''dummy-token''
               | Some t \<Rightarrow> if t = [] then ''dummy-token'' else t);
        usr = (case auth_user data of
                 None \<Rightarrow> JObj []
               | Some u \<Rightarrow> if truthy_json u then u else JObj []);
        after = handleLogin stringify (Resolved (Some data)) (p, a, w0)
    in after =
         (p\<lparr>loading := False\<rparr>,
          a\<lparr>user := Some usr\<rparr>,
          w0\<lparr>localStorage := (localStorage w0)(''token'' \<mapsto> tok, ''user'' \<mapsto> stringify usr),
             log := log w0 @
               [Request \<lparr>verb = POST, url = ''http://127.0.0.1:5000/api/login'',
                  payload = Fields [(''email'', login_email p), (''password'', login_password p)],
                  headers = [], timeout = None\<rparr>,
                Set_item ''token'' tok,
                Set_item ''user'' (stringify usr),
                Toast Success ''Welcome back!'',
                Navigate ''/'']\<rparr>) \<and>
       localStorage (snd (snd after)) ''token'' = Some tok \<and>
       localStorage (snd (snd after)) ''user'' = Some (stringify usr) \<and>
       user (fst (snd after)) = Some usr \<and>
       Routes (fst (snd after)) (snd (snd after)) ''/'' = View Dashboard_view \<and>
       recentApplications (fst (fetchData (Resolved s) (Resolved r) (Resolved (Some apps))
           (d, snd (snd after)))) = take 5 apps \<and>
       map headers (drop (length (requests_of (log (snd (snd after)))))
           (requests_of (log (snd (fetchData (Resolved s) (Resolved r) (Resolved (Some apps))
              (d, snd (snd after)))))))
         = replicate 3 [(''Authorization'', ''Bearer '' @ tok)]"
    unfolding Let_def tok [symmetric] usr [symmetric]
    by (simp add: handleLogin_Resolved fetchData_Resolved guard requests_of_append
          get_request_def auth_headers_def bearer_def numeral_3_eq_3)
  have valid:
    "access_token data = Some t \<and> t \<noteq> [] \<and> auth_user data = Some (JObj kvs) \<longrightarrow>
      localStorage (snd (snd (handleLogin stringify (Resolved (Some data)) (p, a, w0)))) ''token''
        = Some t \<and>
      localStorage (snd (snd (handleLogin stringify (Resolved (Some data)) (p, a, w0)))) ''user''
        = Some (stringify (JObj kvs)) \<and>
      user (fst (snd (handleLogin stringify (Resolved (Some data)) (p, a, w0))))
        = Some (JObj kvs)"
    by (simp add: handleLogin_Resolved user_or_empty_def)
  from recent short login_part valid show ?thesis
    by (simp add: login_persists)
qed

theorem dashboard_recent_applications_after_login_witness:
  "length [application_with ''applied'', application_with ''interview''] < 5 \<and>
   recentApplications (fst (fetchData (Resolved JNull) (Resolved JNull)
       (Resolved (Some [application_with ''applied'', application_with ''interview'']))
       (blank_dashboard, session_world)))
     = [application_with ''applied'', application_with ''interview''] \<and>
   access_token valid_auth_data = Some ''abc'' \<and> ''abc'' \<noteq> [] \<and>
   auth_user valid_auth_data = Some (JObj [(''email'', JStr ''a@b.c'')]) \<and>
   localStorage (snd (snd (handleLogin (\<lambda>j. ''{}'') (Resolved (Some valid_auth_data))
       (blank_login_page, signed_out, empty_world)))) ''token'' = Some ''abc'' \<and>
   localStorage (snd (snd (handleLogin (\<lambda>j. ''{}'') (Resolved (Some valid_auth_data))
       (blank_login_page, signed_out, empty_world)))) ''user'' = Some ''{}'' \<and>
   user (fst (snd (handleLogin (\<lambda>j. ''{}'') (Resolved (Some valid_auth_data))
       (blank_login_page, signed_out, empty_world))))
     = Some (JObj [(''email'', JStr ''a@b.c'')])"
  using dashboard_recent_applications_after_login
    [where s = JNull and r = JNull
       and apps = "[application_with ''applied'', application_with ''interview'']"
       and d = blank_dashboard and w = session_world
       and stringify = "\<lambda>j. ''{}''" and token = "''abc''" and userData = "JObj []"
       and a = signed_out and ?w0.0 = empty_world and data = valid_auth_data
       and p = blank_login_page and t = "''abc''" and kvs = "[(''email'', JStr ''a@b.c'')]"]
  by (simp add: valid_auth_data_def)

section \<open>Jobs: deleting a job\<close>

lemma fetchJobs_log:
  "log (snd (fetchJobs resp (p, w))) =
     log w @ Request (get_request (API @ ''/jobs'') (auth_headers (getItem ''token'' w)))
       # (case resp of Resolved js \<Rightarrow> [] | Rejected err \<Rightarrow> [Toast Error ''Failed to fetch jobs''])"
  by (simp add: fetchJobs_def emit_def Let_def split: response.splits)

lemma fetchJobs_storage: "localStorage (snd (fetchJobs resp (p, w))) = localStorage w"
  by (simp add: fetchJobs_def emit_def Let_def split: response.splits)

text \<open>
  Claim C7. When the user declines the confirmation, \<open>handleDelete\<close> returns with the
  page state and the storage as they were and only the dialog in the log: no request is
  issued. When the user confirms, the delete request for \<open>/jobs/{id}\<close> follows the
  dialog in the log. So the request is issued only after a confirmation.
\<close>

theorem handleDelete_confirmation_gate:
  "(\<not> confirmed \<longrightarrow>
      handleDelete confirmed jobId delRes fetchRes (p, w)
        = (p, w\<lparr>log := log w @ [Confirm_dialog ''Are you sure you want to delete this job?'']\<rparr>)
      \<and> requests_of (log (snd (handleDelete confirmed jobId delRes fetchRes (p, w))))
          = requests_of (log w)) \<and>
   (confirmed \<longrightarrow>
      (\<exists>rest. log (snd (handleDelete confirmed jobId delRes fetchRes (p, w))) =
         log w @ [Confirm_dialog ''Are you sure you want to delete this job?'',
                  Request \<lparr>verb = DELETE, url = ''http://127.0.0.1:5000/api/jobs/'' @ jobId,
                    payload = No_body,
                    headers = [(''Authorization'', bearer (localStorage w ''token''))],
                    timeout = None\<rparr>] @ rest))"
proof (intro conjI impI)
  assume "\<not> confirmed"
  then show declined: "handleDelete confirmed jobId delRes fetchRes (p, w)
        = (p, w\<lparr>log := log w @ [Confirm_dialog ''Are you sure you want to delete this job?'']\<rparr>)"
    by (simp add: handleDelete_def emit_def)
  show "requests_of (log (snd (handleDelete confirmed jobId delRes fetchRes (p, w))))
          = requests_of (log w)"
    by (simp add: declined requests_of_append)
next
  assume c: confirmed
  show "\<exists>rest. log (snd (handleDelete confirmed jobId delRes fetchRes (p, w))) =
         log w @ [Confirm_dialog ''Are you sure you want to delete this job?'',
                  Request \<lparr>verb = DELETE, url = ''http://127.0.0.1:5000/api/jobs/'' @ jobId,
                    payload = No_body,
                    headers = [(''Authorization'', bearer (localStorage w ''token''))],
                    timeout = None\<rparr>] @ rest"
  proof (cases delRes)
    case (Resolved x)
    with c show ?thesis
      by (simp add: handleDelete_def Let_def fetchJobs_log emit_def API_def auth_headers_def
            getItem_def)
  next
    case (Rejected err)
    with c show ?thesis
      by (simp add: handleDelete_def Let_def emit_def API_def auth_headers_def getItem_def)
  qed
qed

theorem handleDelete_confirmation_gate_witness:
  "handleDelete False ''42'' (Resolved JNull) (Resolved []) (no_jobs, session_world)
     = (no_jobs,
        session_world\<lparr>log := [Confirm_dialog ''Are you sure you want to delete this job?'']\<rparr>) \<and>
   requests_of (log (snd (handleDelete False ''42'' (Resolved JNull) (Resolved [])
       (no_jobs, session_world)))) = [] \<and>
   (\<exists>rest. log (snd (handleDelete True ''42'' (Resolved JNull) (Resolved [])
       (no_jobs, session_world))) =
      [Confirm_dialog ''Are you sure you want to delete this job?'',
       Request \<lparr>verb = DELETE, url = ''http://127.0.0.1:5000/api/jobs/42'', payload = No_body,
         headers = [(''Authorization'', ''Bearer abc'')], timeout = None\<rparr>] @ rest)"
  using handleDelete_confirmation_gate
      [where confirmed = False and jobId = "''42''" and delRes = "Resolved JNull"
         and fetchRes = "Resolved []" and p = no_jobs and w = session_world]
    handleDelete_confirmation_gate
      [where confirmed = True and jobId = "''42''" and delRes = "Resolved JNull"
         and fetchRes = "Resolved []" and p = no_jobs and w = session_world]
  by (simp add: session_world_def bearer_def)

section \<open>Status badges\<close>

lemma statusColors_own:
  "map_of statusColors k =
     (if k = ''applied'' then Some ''bg-blue-500''
      else if k = ''interview'' then Some ''bg-purple-500''
      else if k = ''rejected'' then Some ''bg-red-500''
      else if k = ''accepted'' then Some ''bg-green-500''
      else if k = ''pending'' then Some ''bg-yellow-500''
      else None)"
  by (simp add: statusColors_def)

lemma get_property_statusColors:
  "get_property statusColors k =
     (if k = ''applied'' then Own ''bg-blue-500''
      else if k = ''interview'' then Own ''bg-purple-500''
      else if k = ''rejected'' then Own ''bg-red-500''
      else if k = ''accepted'' then Own ''bg-green-500''
      else if k = ''pending'' then Own ''bg-yellow-500''
      else if k \<in> set Object_prototype then Inherited k
      else Undefined_property)"
  by (simp add: get_property_def statusColors_own)

lemma badge_known:
  assumes "status app \<in> {''applied'', ''interview'', ''rejected'', ''accepted'', ''pending''}"
  shows "\<exists>b. Dashboard_badge app = Inr b" and "\<exists>b. Applications_badge app = Inr b"
  using assms
  by (auto simp: Dashboard_badge_def Applications_badge_def get_property_statusColors
        replace_call_def)

lemma badge_unknown:
  assumes "status app \<notin> {''applied'', ''interview'', ''rejected'', ''accepted'', ''pending''}"
  shows "Dashboard_badge app = Inl TypeError" and "Applications_badge app = Inl TypeError"
  using assms
  by (auto simp: Dashboard_badge_def Applications_badge_def get_property_statusColors
        replace_call_def)

text \<open>
  The status \<open>constructor\<close> is outside the five known ones, and the lookup
  \<open>statusColors['constructor']\<close> is not \<open>undefined\<close>: it finds the property every
  object inherits.
\<close>

theorem statusColors_lookup_of_constructor_is_inherited:
  "''constructor'' \<notin> {''applied'', ''interview'', ''rejected'', ''accepted'', ''pending''} \<and>
   get_property statusColors ''constructor'' = Inherited ''constructor'' \<and>
   get_property statusColors ''constructor'' \<noteq> Undefined_property"
  by (simp add: get_property_statusColors Object_prototype_def)

text \<open>
  Claim C9, amended. The status badge of the Applications list and of the Dashboard's
  recent applications renders exactly when the application's status is one of
  \<open>applied\<close>, \<open>interview\<close>, \<open>rejected\<close>, \<open>accepted\<close>, \<open>pending\<close>: for these the
  lookup in \<open>statusColors\<close> finds a colour string and no error is raised. For any
  other status the render throws a \<open>TypeError\<close> at \<open>.replace\<close>; the lookup is then
  \<open>undefined\<close> unless the status names a property inherited from
  \<open>Object.prototype\<close>, where it yields a value that is not a string.
\<close>

theorem status_badge_renders_iff_known_status:
  "(status app \<in> {''applied'', ''interview'', ''rejected'', ''accepted'', ''pending''} \<longrightarrow>
      (\<exists>c. get_property statusColors (status app) = Own c) \<and>
      (\<exists>b. Dashboard_badge app = Inr b) \<and> (\<exists>b. Applications_badge app = Inr b)) \<and>
   (status app \<notin> {''applied'', ''interview'', ''rejected'', ''accepted'', ''pending''} \<longrightarrow>
      Dashboard_badge app = Inl TypeError \<and> Applications_badge app = Inl TypeError \<and>
      (get_property statusColors (status app) = Undefined_property
         \<longleftrightarrow> status app \<notin> set Object_prototype))"
proof (intro conjI impI)
  assume k: "status app \<in> {''applied'', ''interview'', ''rejected'', ''accepted'', ''pending''}"
  then show "\<exists>c. get_property statusColors (status app) = Own c"
    by (auto simp: get_property_statusColors)
  from k show "\<exists>b. Dashboard_badge app = Inr b" by (rule badge_known)
  from k show "\<exists>b. Applications_badge app = Inr b" by (rule badge_known)
next
  assume u: "status app \<notin> {''applied'', ''interview'', ''rejected'', ''accepted'', ''pending''}"
  then show "Dashboard_badge app = Inl TypeError" by (rule badge_unknown)
  from u show "Applications_badge app = Inl TypeError" by (rule badge_unknown)
  from u show "get_property statusColors (status app) = Undefined_property
         \<longleftrightarrow> status app \<notin> set Object_prototype"
    by (simp add: get_property_statusColors)
qed

theorem status_badge_renders_iff_known_status_witness:
  "status (application_with ''interview'')
     \<in> {''applied'', ''interview'', ''rejected'', ''accepted'', ''pending''} \<and>
   (\<exists>b. Dashboard_badge (application_with ''interview'') = Inr b) \<and>
   (\<exists>b. Applications_badge (application_with ''interview'') = Inr b) \<and>
   status (application_with ''archived'')
     \<notin> {''applied'', ''interview'', ''rejected'', ''accepted'', ''pending''} \<and>
   Dashboard_badge (application_with ''archived'') = Inl TypeError \<and>
   Applications_badge (application_with ''archived'') = Inl TypeError \<and>
   get_property statusColors (status (application_with ''archived'')) = Undefined_property"
  using status_badge_renders_iff_known_status [where app = "application_with ''interview''"]
    status_badge_renders_iff_known_status [where app = "application_with ''archived''"]
  by (simp add: application_with_def Object_prototype_def)

section \<open>Responses with status 401\<close>

lemma fetchResume_begin_token:
  "localStorage w ''token'' = Some tok \<Longrightarrow> tok \<noteq> [] \<Longrightarrow>
   fetchResume_begin w =
     (True, w\<lparr>log := log w @ [Request (get_request (API @ ''/api/resume'')
                                  [(''Authorization'', ''Bearer '' @ tok)])]\<rparr>)"
  by (simp add: fetchResume_begin_def getItem_def emit_def)

lemma fetchResume_401:
  assumes "err_status err = Some 401" "localStorage w ''token'' = Some tok" "tok \<noteq> []"
  shows "fetchResume (Rejected err) (s, w) =
     (s, w\<lparr>log := log w @
        [Request (get_request (API @ ''/api/resume'') [(''Authorization'', ''Bearer '' @ tok)]),
         Console_error,
         Toast Error ''Session expired. Please log in again.'',
         Navigate ''/login'']\<rparr>)"
  using assms
  by (simp add: fetchResume_def fetchResume_begin_token fetchResume_settle_def emit_def)

lemma handleLogout_clears:
  "handleLogout (a, w) =
     (a\<lparr>user := None\<rparr>,
      w\<lparr>localStorage := (localStorage w)(''token'' := None, ''user'' := None),
        log := log w @ [Remove_item ''token'', Remove_item ''user'', Navigate ''/login'']\<rparr>)"
  by (simp add: handleLogout_def logout_def removeItem_def emit_def)

text \<open>Whatever the error, the Jobs fetch only shows its notification.\<close>

lemma fetchJobs_Rejected:
  "fetchJobs (Rejected err) (p, w) =
     (p, w\<lparr>log := log w @
        [Request \<lparr>verb = GET, url = ''http://127.0.0.1:5000/api/jobs'', payload = No_body,
           headers = [(''Authorization'', bearer (localStorage w ''token''))], timeout = None\<rparr>,
         Toast Error ''Failed to fetch jobs'']\<rparr>)"
  by (simp add: fetchJobs_def emit_def Let_def API_def getItem_def get_request_def
        auth_headers_def)

text \<open>The signed-in browser is what \<open>login\<close> makes of a signed-out one.\<close>

lemma login_gives_signed_in:
  "fst (login (\<lambda>j. ''{}'') ''abc'' (JObj []) (signed_out, empty_world)) = signed_in"
  "localStorage (snd (login (\<lambda>j. ''{}'') ''abc'' (JObj []) (signed_out, empty_world)))
     = localStorage session_world"
  by (simp_all add: login_def setItem_def emit_def signed_out_def signed_in_def empty_world_def
        session_world_def)

text \<open>
  While the context has a user and a token is stored, the login route sends the router
  on to the dashboard.
\<close>

lemma login_route_bounces_signed_in:
  assumes "user a = Some u" and "truthy_json u"
    and "localStorage w ''token'' = Some tok" and "tok \<noteq> []"
  shows "follow_redirects 1 a w ''/login'' = View Dashboard_view"
  using assms
  by (simp add: Routes_def guarded_def ProtectedRoute_def getItem_def)

text \<open>
  Claim C2 (a 401 response to any authenticated request clears the persisted token and
  user, and the client navigates to the login view) does not hold. In a signed-in
  browser, a 401 answer to the Jobs fetch only shows \<open>Failed to fetch jobs\<close>: nothing
  is cleared and nothing navigates. A 401 answer to the Resume Editor's fetch shows the
  session-expired notification and calls \<open>navigate('/login')\<close>, but the token and the
  user stay stored and the context keeps its user, so the login route sends the router
  on and the view shown is the dashboard, not the login view. Logging out is the path
  that clears both entries and the context's user before navigating, and ends on the
  login view.
\<close>

theorem unauthorized_response_leaves_session:
  "err_status unauthorized = Some 401 \<and>
   fetchJobs (Rejected unauthorized) (no_jobs, session_world) =
     (no_jobs,
      session_world\<lparr>log :=
        [Request \<lparr>verb = GET, url = ''http://127.0.0.1:5000/api/jobs'', payload = No_body,
           headers = [(''Authorization'', ''Bearer abc'')], timeout = None\<rparr>,
         Toast Error ''Failed to fetch jobs'']\<rparr>) \<and>
   localStorage (snd (fetchJobs (Rejected unauthorized) (no_jobs, session_world))) ''token''
     = Some ''abc'' \<and>
   localStorage (snd (fetchJobs (Rejected unauthorized) (no_jobs, session_world))) ''user''
     = Some ''{}'' \<and>
   fetchResume (Rejected unauthorized) (initial_editor, session_world) =
     (initial_editor,
      session_world\<lparr>log :=
        [Request \<lparr>verb = GET, url = ''http://127.0.0.1:5000/api/api/resume'', payload = No_body,
           headers = [(''Authorization'', ''Bearer abc'')], timeout = None\<rparr>,
         Console_error,
         Toast Error ''Session expired. Please log in again.'',
         Navigate ''/login'']\<rparr>) \<and>
   localStorage (snd (fetchResume (Rejected unauthorized) (initial_editor, session_world))) ''token''
     = Some ''abc'' \<and>
   localStorage (snd (fetchResume (Rejected unauthorized) (initial_editor, session_world))) ''user''
     = Some ''{}'' \<and>
   Routes signed_in (snd (fetchResume (Rejected unauthorized) (initial_editor, session_world)))
       ''/login'' = Navigate_to ''/'' \<and>
   follow_redirects 1 signed_in
       (snd (fetchResume (Rejected unauthorized) (initial_editor, session_world))) ''/login''
     = View Dashboard_view \<and>
   fst (handleLogout (signed_in, session_world)) = signed_out \<and>
   localStorage (snd (handleLogout (signed_in, session_world))) ''token'' = None \<and>
   localStorage (snd (handleLogout (signed_in, session_world))) ''user'' = None \<and>
   log (snd (handleLogout (signed_in, session_world)))
     = [Remove_item ''token'', Remove_item ''user'', Navigate ''/login''] \<and>
   follow_redirects 1 (fst (handleLogout (signed_in, session_world)))
       (snd (handleLogout (signed_in, session_world))) ''/login''
     = View Login_view"
proof -
  have jobs: "fetchJobs (Rejected unauthorized) (no_jobs, session_world) =
     (no_jobs,
      session_world\<lparr>log :=
        [Request \<lparr>verb = GET, url = ''http://127.0.0.1:5000/api/jobs'', payload = No_body,
           headers = [(''Authorization'', ''Bearer abc'')], timeout = None\<rparr>,
         Toast Error ''Failed to fetch jobs'']\<rparr>)"
    by (simp add: fetchJobs_Rejected session_world_def bearer_def)
  have editor: "fetchResume (Rejected unauthorized) (initial_editor, session_world) =
     (initial_editor,
      session_world\<lparr>log :=
        [Request \<lparr>verb = GET, url = ''http://127.0.0.1:5000/api/api/resume'', payload = No_body,
           headers = [(''Authorization'', ''Bearer abc'')], timeout = None\<rparr>,
         Console_error,
         Toast Error ''Session expired. Please log in again.'',
         Navigate ''/login'']\<rparr>)"
    using fetchResume_401 [of unauthorized session_world "''abc''" initial_editor]
    by (simp add: unauthorized_def session_world_def get_request_def API_def)
  have out: "handleLogout (signed_in, session_world) =
     (signed_out,
      session_world\<lparr>localStorage := (localStorage session_world)(''token'' := None, ''user'' := None),
        log := [Remove_item ''token'', Remove_item ''user'', Navigate ''/login'']\<rparr>)"
    by (simp add: handleLogout_clears signed_in_def signed_out_def session_world_def)
  show ?thesis
    unfolding jobs editor out
    by (simp add: unauthorized_def session_world_def signed_in_def signed_out_def
          Routes_def guarded_def ProtectedRoute_def getItem_def)
qed

section \<open>Uploading a resume\<close>

text \<open>The Resume Editor turns a file of another type away before anything is sent.\<close>

lemma ResumeEditor_rejects_type:
  "file_type f \<notin> set allowedTypes \<Longrightarrow>
   ResumeEditor_handleFileUpload (Some f) uploadRes fetchRes (s, w) =
     (s, w\<lparr>log := log w @ [Toast Error ''Only PDF, DOC, DOCX, or TXT files are allowed.'']\<rparr>)"
  by (simp add: ResumeEditor_handleFileUpload_def emit_def)

text \<open>The Dashboard posts whatever file it is given: the first effect is the request.\<close>

lemma Dashboard_upload_first_request:
  "\<exists>rest. log (snd (Dashboard_handleFileUpload (Some f) uploadRes statsRes resumeRes appsRes (d, w))) =
     log w @ Request \<lparr>verb = POST, url = ''http://127.0.0.1:5000/api/resume/upload'',
                payload = FormData [(''file'', f)],
                headers = [(''Authorization'', bearer (localStorage w ''token'')),
                           (''Content-Type'', ''multipart/form-data'')],
                timeout = None\<rparr> # rest"
  by (cases uploadRes)
     (simp_all add: Dashboard_handleFileUpload_def fetchData_def emit_def Let_def API_def
        getItem_def split: prod.splits response.splits option.splits)

text \<open>
  Claim C1 (a file of a type outside PDF, TXT, DOC, DOCX is rejected before any request,
  at both upload entry points) does not hold of the Dashboard. A PNG image is not of an
  allowed type; given to the Dashboard's \<open>handleFileUpload\<close> in a signed-in
  browser, it is posted to the upload endpoint, and the page re-fetches after the
  success. Given to the Resume Editor's \<open>handleFileUpload\<close>, no request is issued.
\<close>

theorem dashboard_upload_posts_disallowed_type:
  "file_type png_file \<notin> set allowedTypes \<and>
   requests_of (log (snd (Dashboard_handleFileUpload (Some png_file) (Resolved JNull)
       (Resolved JNull) (Resolved JNull) (Resolved (Some [])) (blank_dashboard, session_world)))) =
     [\<lparr>verb = POST, url = ''http://127.0.0.1:5000/api/resume/upload'',
       payload = FormData [(''file'', png_file)],
       headers = [(''Authorization'', ''Bearer abc''), (''Content-Type'', ''multipart/form-data'')],
       timeout = None\<rparr>,
      get_request ''http://127.0.0.1:5000/api/stats'' [(''Authorization'', ''Bearer abc'')],
      get_request ''http://127.0.0.1:5000/api/resume'' [(''Authorization'', ''Bearer abc'')],
      get_request ''http://127.0.0.1:5000/api/applications'' [(''Authorization'', ''Bearer abc'')]] \<and>
   requests_of (log (snd (ResumeEditor_handleFileUpload (Some png_file) (Resolved JNull)
       (Resolved None) (initial_editor, session_world)))) = []"
  by (simp add: png_file_def allowedTypes_def Dashboard_handleFileUpload_def fetchData_def
        session_world_def emit_def Let_def API_def getItem_def bearer_def auth_headers_def
        ResumeEditor_handleFileUpload_def)

text \<open>
  Claim C5 (every upload request is sent without an explicit content type, at both
  entry points) does not hold of the Dashboard. For a PDF file in a signed-in browser,
  the Dashboard's upload request carries an explicit
  \<open>Content-Type: multipart/form-data\<close> header beside the authorization; the Resume
  Editor's carries the authorization only.
\<close>

theorem dashboard_upload_sets_content_type:
  "map headers (requests_of (log (snd (Dashboard_handleFileUpload (Some pdf_file)
       (Rejected err) statsRes resumeRes appsRes (blank_dashboard, session_world))))) =
     [[(''Authorization'', ''Bearer abc''), (''Content-Type'', ''multipart/form-data'')]] \<and>
   map headers (requests_of (log (snd (ResumeEditor_handleFileUpload (Some pdf_file)
       (Rejected err) fetchRes (initial_editor, session_world))))) =
     [[(''Authorization'', ''Bearer abc'')]]"
  by (simp add: pdf_file_def allowedTypes_def Dashboard_handleFileUpload_def
        session_world_def emit_def Let_def API_def getItem_def bearer_def
        ResumeEditor_handleFileUpload_def)

text \<open>
  Claim C6 (every upload request has a 30-second timeout, the apply request a 120-second
  one) does not hold of the Dashboard's upload. For a PDF file in a signed-in browser,
  the Dashboard's upload request has no timeout configured; the Resume Editor's has
  30000 ms, and the apply request, a post to \<open>/applications/42\<close> for job \<open>42\<close>,
  has 120000 ms.
\<close>

theorem dashboard_upload_has_no_timeout:
  "map timeout (requests_of (log (snd (Dashboard_handleFileUpload (Some pdf_file)
       (Rejected err) statsRes resumeRes appsRes (blank_dashboard, session_world))))) = [None] \<and>
   map timeout (requests_of (log (snd (ResumeEditor_handleFileUpload (Some pdf_file)
       (Rejected err) fetchRes (initial_editor, session_world))))) = [Some 30000] \<and>
   map (\<lambda>r. (verb r, url r, timeout r))
       (requests_of (log (snd (handleApply ''42'' (Rejected err) (no_jobs, session_world)))))
     = [(POST, ''http://127.0.0.1:5000/api/applications/42'', Some 120000)]"
  by (simp add: pdf_file_def allowedTypes_def Dashboard_handleFileUpload_def
        session_world_def emit_def Let_def API_def getItem_def bearer_def
        ResumeEditor_handleFileUpload_def handleApply_def)

section \<open>The Resume Editor's state after a fetch\<close>

lemma sample_editor_eq:
  "sample_editor =
    \<lparr>store =
       [Array [] [], Array [] [], Array [] [], Array [] [],
        Object [(''name'', VStr []), (''email'', VStr []), (''phone'', VStr []),
                (''summary'', VStr []), (''skills'', Ref 0), (''experience'', Ref 1),
                (''education'', Ref 2), (''keywords'', Ref 3)],
        Array [Some (VStr ''SQL'')] [],
        Object [(''title'', VStr ''Engineer''), (''company'', VStr ''Acme'')],
        Array [Some (Ref 6)] [],
        Object [(''degree'', VStr ''BSc''), (''year'', VStr ''2019'')],
        Array [Some (Ref 8)] [],
        Object [(''name'', VStr ''Ann''), (''skills'', Ref 5), (''experience'', Ref 7),
                (''education'', Ref 9)],
        Array [] [],
        Object [(''name'', VStr ''Ann''), (''email'', VStr []), (''phone'', VStr []),
                (''summary'', VStr []), (''skills'', Ref 5), (''experience'', Ref 7),
                (''education'', Ref 9), (''keywords'', Ref 11)]],
     editor_resume = Some \<lparr>resume_id = ''7'', resume_file_name = ''cv.pdf'',
                            uploaded_at = ''2024-01-01'', parsed_data = Ref 10\<rparr>,
     editing = False, saving = False, editor_uploading = False, editData = Ref 12\<rparr>"
  by (simp add: sample_editor_def sample_body_def fetchResume_settle_def initial_editor_def
        alloc_def or_new_def or_str_def get_prop_def cell_at_def empty_world_def)

section \<open>Request paths of the Resume Editor\<close>

text \<open>
  Claim C3 (the resume is fetched with a get of \<open>/api/resume\<close> and saved with a put
  to \<open>/api/resume/{id}\<close>, the Resume Editor using the same paths as the rest of the
  app) does not hold of the Resume Editor. In a signed-in browser it fetches the resume
  from \<open>/api/api/resume\<close> and saves resume \<open>7\<close> to \<open>/api/api/resume/7\<close>, while
  the Dashboard fetches the resume from \<open>/api/resume\<close>: the editor's paths have one
  \<open>/api\<close> segment more than those of the rest of the app.
\<close>

theorem resume_editor_paths_repeat_api_segment:
  "map (\<lambda>r. (verb r, url r))
       (requests_of (log (snd (fetchResume (Resolved None) (initial_editor, session_world)))))
     = [(GET, ''http://127.0.0.1:5000/api/api/resume'')] \<and>
   map (\<lambda>r. (verb r, url r))
       (requests_of (log (snd (handleSave (Rejected err) fetchRes (sample_editor, session_world)))))
     = [(PUT, ''http://127.0.0.1:5000/api/api/resume/7'')] \<and>
   map (\<lambda>r. (verb r, url r))
       (requests_of (log (snd (fetchData (Resolved JNull) (Resolved JNull) (Resolved (Some []))
          (blank_dashboard, session_world)))))
     = [(GET, ''http://127.0.0.1:5000/api/stats''), (GET, ''http://127.0.0.1:5000/api/resume''),
        (GET, ''http://127.0.0.1:5000/api/applications'')]"
  by (simp add: fetchResume_def fetchResume_begin_def fetchResume_settle_def fetchData_def
        handleSave_def sample_editor_eq
        session_world_def emit_def Let_def API_def getItem_def get_request_def)

section \<open>Updating the draft\<close>

lemma setEditData_with_store:
  "store (setEditData_with key v s h) = h @ [Object (set_prop key v (own_props h (editData s)))]"
  by (simp add: setEditData_with_def alloc_def)

text \<open>\<open>updateSkill\<close> only allocates: every cell the store had is as it was.\<close>

lemma updateSkill_frame:
  assumes "updateSkill index v s = Inr s'"
  shows "take (length (store s)) (store s') = store s"
  using assms
  by (auto simp: updateSkill_def Let_def alloc_def assign_index_def cell_at_def
        setEditData_with_store split: sum.splits)

text \<open>
  \<open>update_entry\<close> at a valid index of an array of entry objects overwrites the entry's
  cell, which the array of the previous draft refers to as well.
\<close>

lemma update_entry_writes_shared_entry:
  assumes "get_prop (store s) (editData s) key = Ref a"
    and "cell_at (store s) a = Some (Array vs ps)"
    and "index < length vs"
    and "vs ! index = Some (Ref r)"
    and "cell_at (store s) r = Some (Object fs)"
  shows "\<exists>s'. update_entry key index field v s = Inr s' \<and>
           cell_at (store s') r = Some (Object (set_prop field (VStr v) fs))"
  using assms
  by (auto simp: update_entry_def Let_def iterate_def alloc_def get_index_def cell_at_def
        assign_member_def setEditData_with_store nth_append split: if_splits)

text \<open>
  Claim C4 (the update-at-index operations leave the previous draft unchanged) does not
  hold of \<open>updateExperience\<close> and \<open>updateEducation\<close>. In the editor that has
  fetched the sample resume, \<open>updateExperience(0, 'title', 'Manager')\<close> succeeds and
  sets a new draft object, and the previous draft, read in the store afterwards, has the
  title \<open>Manager\<close> where it had \<open>Engineer\<close>: the entry object was written in place.
  \<open>updateEducation\<close> does the same to the degree. \<open>updateSkill(0, 'Go')\<close> leaves
  the previous draft's skill as it was.
\<close>

theorem update_entry_changes_previous_draft:
  "read_entry (store sample_editor) (editData sample_editor) ''experience'' 0 ''title''
     = VStr ''Engineer'' \<and>
   (case updateExperience 0 ''title'' ''Manager'' sample_editor of
      Inl e \<Rightarrow> False
    | Inr s' \<Rightarrow>
        editData s' \<noteq> editData sample_editor \<and>
        read_entry (store s') (editData s') ''experience'' 0 ''title'' = VStr ''Manager'' \<and>
        read_entry (store s') (editData sample_editor) ''experience'' 0 ''title'' = VStr ''Manager'') \<and>
   read_entry (store sample_editor) (editData sample_editor) ''education'' 0 ''degree''
     = VStr ''BSc'' \<and>
   (case updateEducation 0 ''degree'' ''MSc'' sample_editor of
      Inl e \<Rightarrow> False
    | Inr s' \<Rightarrow>
        editData s' \<noteq> editData sample_editor \<and>
        read_entry (store s') (editData s') ''education'' 0 ''degree'' = VStr ''MSc'' \<and>
        read_entry (store s') (editData sample_editor) ''education'' 0 ''degree'' = VStr ''MSc'') \<and>
   (case updateSkill 0 ''Go'' sample_editor of
      Inl e \<Rightarrow> False
    | Inr s' \<Rightarrow>
        editData s' \<noteq> editData sample_editor \<and>
        get_index (store s') (get_prop (store s') (editData s') ''skills'') 0 = VStr ''Go'' \<and>
        get_index (store s') (get_prop (store s') (editData sample_editor) ''skills'') 0
          = VStr ''SQL'')"
  by (simp add: sample_editor_eq read_entry_def updateExperience_def updateEducation_def
        update_entry_def updateSkill_def Let_def iterate_def alloc_def get_index_def get_prop_def
        cell_at_def assign_member_def assign_index_def set_elem_def setEditData_with_def
        own_props_def)

text \<open>
  Writing a skill past the end leaves holes in the new array, and removing a skill
  afterwards drops them: from the empty draft, \<open>updateSkill(3, 'x')\<close> and then
  \<open>removeSkill(0)\<close> leave the skills \<open>['x']\<close>.
\<close>

lemma removeSkill_skips_holes:
  "(case updateSkill 3 ''x'' initial_editor of
      Inl e \<Rightarrow> False
    | Inr s1 \<Rightarrow>
        cell_at (store s1) 5 = Some (Array [None, None, None, Some (VStr ''x'')] []) \<and>
        get_prop (store s1) (editData s1) ''skills'' = Ref 5 \<and>
        (case removeSkill 0 s1 of
           Inl e \<Rightarrow> False
         | Inr s2 \<Rightarrow>
             (case get_prop (store s2) (editData s2) ''skills'' of
                Ref r \<Rightarrow> cell_at (store s2) r = Some (Array [Some (VStr ''x'')] [])
              | _ \<Rightarrow> False)))"
  by (simp add: updateSkill_def removeSkill_def remove_from_def initial_editor_def Let_def
        iterate_def array_elems_def alloc_def get_prop_def cell_at_def assign_index_def
        set_elem_def setEditData_with_def own_props_def numeral_3_eq_3)

end
